theory Spec2Isabelle
  imports Main
begin

section \<open>Syntax trees\<close>

text \<open>
  The statement counter works on the tree that the parser of the standard library returns.
  Only the class of a node, the name of a definition, the statement lists below a node and,
  for an expression statement, the class of its value are read by the code; every statement
  and every handler also carries the line it starts on (\<open>lineno\<close>), which the code never
  reads.
\<close>

datatype expr = Await | Yield | YieldFrom | Call | Constant | Name | OtherExpr

datatype node =
    Module "node list"
  | With nat "node list"
  | AsyncWith nat "node list"
  | ExceptHandler nat "node list"
  | AsyncFunctionDef nat string "node list"
  | FunctionDef nat string "node list"
  | ClassDef nat string "node list"
  | Return nat
  | Delete nat
  | Assign nat
  | AugAssign nat
  | Raise nat
  | Assert nat
  | Import nat
  | ImportFrom nat
  | Global nat
  | Nonlocal nat
  | Pass nat
  | Break nat
  | Continue nat
  | Expr nat expr
  | For nat "node list" "node list"
  | AsyncFor nat "node list" "node list"
  | While nat "node list" "node list"
  | If_stmt nat "node list" "node list"
  | Try nat "node list" "node list" "node list" "node list"
  | AnnAssign nat
  | TypeAlias nat
  | TryStar nat "node list" "node list" "node list" "node list"
  | Match nat "node list list"
  | NonStmt

text \<open>
  \<open>AnnAssign\<close>, \<open>TypeAlias\<close>, \<open>TryStar\<close> and \<open>Match\<close> are the statement classes of the
  grammar that the traversal does not list; \<open>NonStmt\<close> stands for a node that is neither a
  statement nor one of the containers above (an expression, a case of a match).
\<close>

datatype exn =
    FileNotFoundError | PermissionError | OSError
  | IndentationError | SyntaxError | TokenError
  | AssertionError | UnicodeDecodeError

text \<open>\<open>isinstance(node, ast.stmt)\<close>: the module, a handler and \<open>NonStmt\<close> are no statements.\<close>

fun isinstance_stmt :: "node \<Rightarrow> bool" where
  "isinstance_stmt (Module body) = False"
| "isinstance_stmt (ExceptHandler l body) = False"
| "isinstance_stmt NonStmt = False"
| "isinstance_stmt n = True"

section \<open>The traversal\<close>

text \<open>
  \<open>tranverse_ast_stmt(node, callback)\<close>. The callback reads and updates a state (the counter
  of the caller) and answers whether to go on; a failed assertion is the value
  \<open>Inl AssertionError\<close>, and it ends every loop it is raised in.
\<close>

fun tranverse_ast_stmt :: "(node \<Rightarrow> 's \<Rightarrow> bool \<times> 's) \<Rightarrow> node \<Rightarrow> 's \<Rightarrow> exn + 's"
  and tranverse_body :: "(node \<Rightarrow> 's \<Rightarrow> bool \<times> 's) \<Rightarrow> node list \<Rightarrow> 's \<Rightarrow> exn + 's"
where
  "tranverse_ast_stmt callback node s =
     (case callback node s of (continue_tranversal, s') \<Rightarrow>
        if \<not> continue_tranversal then Inr s'
        else (case node of
            Module body \<Rightarrow> tranverse_body callback body s'
          | With l body \<Rightarrow> tranverse_body callback body s'
          | AsyncWith l body \<Rightarrow> tranverse_body callback body s'
          | ExceptHandler l body \<Rightarrow> tranverse_body callback body s'
          | AsyncFunctionDef l name body \<Rightarrow> tranverse_body callback body s'
          | FunctionDef l name body \<Rightarrow> tranverse_body callback body s'
          | ClassDef l name body \<Rightarrow> tranverse_body callback body s'
          | Return l \<Rightarrow> Inr s'
          | Delete l \<Rightarrow> Inr s'
          | Assign l \<Rightarrow> Inr s'
          | AugAssign l \<Rightarrow> Inr s'
          | Raise l \<Rightarrow> Inr s'
          | Assert l \<Rightarrow> Inr s'
          | Import l \<Rightarrow> Inr s'
          | ImportFrom l \<Rightarrow> Inr s'
          | Global l \<Rightarrow> Inr s'
          | Nonlocal l \<Rightarrow> Inr s'
          | Pass l \<Rightarrow> Inr s'
          | Break l \<Rightarrow> Inr s'
          | Continue l \<Rightarrow> Inr s'
          | Expr l v \<Rightarrow> Inr s'
          | For l body orelse \<Rightarrow>
              (case tranverse_body callback body s' of Inl e \<Rightarrow> Inl e
               | Inr s1 \<Rightarrow> tranverse_body callback orelse s1)
          | AsyncFor l body orelse \<Rightarrow>
              (case tranverse_body callback body s' of Inl e \<Rightarrow> Inl e
               | Inr s1 \<Rightarrow> tranverse_body callback orelse s1)
          | While l body orelse \<Rightarrow>
              (case tranverse_body callback body s' of Inl e \<Rightarrow> Inl e
               | Inr s1 \<Rightarrow> tranverse_body callback orelse s1)
          | If_stmt l body orelse \<Rightarrow>
              (case tranverse_body callback body s' of Inl e \<Rightarrow> Inl e
               | Inr s1 \<Rightarrow> tranverse_body callback orelse s1)
          | Try l body handlers orelse finalbody \<Rightarrow>
              (case tranverse_body callback body s' of Inl e \<Rightarrow> Inl e
               | Inr s1 \<Rightarrow>
              (case tranverse_body callback handlers s1 of Inl e \<Rightarrow> Inl e
               | Inr s2 \<Rightarrow>
              (case tranverse_body callback orelse s2 of Inl e \<Rightarrow> Inl e
               | Inr s3 \<Rightarrow> tranverse_body callback finalbody s3)))
          | _ \<Rightarrow> if isinstance_stmt node then Inr s' else Inl AssertionError))"
| "tranverse_body callback [] s = Inr s"
| "tranverse_body callback (stmt # stmts) s =
     (case tranverse_ast_stmt callback stmt s of Inl e \<Rightarrow> Inl e
      | Inr s' \<Rightarrow> tranverse_body callback stmts s')"

section \<open>Counting statements\<close>

text \<open>
  A name pattern is a compiled regular expression; the code only asks whether
  \<open>p.match(name)\<close> is not \<open>None\<close>, so a pattern is the predicate that answers it.
\<close>

type_synonym pattern = "string \<Rightarrow> bool"

text \<open>The name of a function, async function or class definition, \<open>None\<close> for any other node.\<close>

fun definition_name :: "node \<Rightarrow> string option" where
  "definition_name (FunctionDef l name body) = Some name"
| "definition_name (AsyncFunctionDef l name body) = Some name"
| "definition_name (ClassDef l name body) = Some name"
| "definition_name n = None"

text \<open>
  The callback \<open>_node_effective_count\<close> of \<open>count_statements\<close>; the counter it updates
  (\<open>nonlocal count\<close>) is passed in and returned.
\<close>

definition node_effective_count :: "pattern list \<Rightarrow> node \<Rightarrow> nat \<Rightarrow> bool \<times> nat" where
  "node_effective_count exclude_name_patterns node count =
     (let count' =
        (case node of
           Module body \<Rightarrow> count + 0
         | Expr l v \<Rightarrow>
             if v = Await \<or> v = Yield \<or> v = YieldFrom \<or> v = Call then count + 1 else count
         | _ \<Rightarrow> count + 1)
      in case definition_name node of
           Some name \<Rightarrow>
             if list_ex (\<lambda>p. p name) exclude_name_patterns then (False, count')
             else (True, count')
         | None \<Rightarrow> (True, count'))"

text \<open>
  \<open>count_statements(source_code, exclude_name_patterns)\<close>. The parser belongs to the
  standard library and is a parameter: it answers a tree or raises.
\<close>

definition count_statements ::
  "(string \<Rightarrow> exn + node) \<Rightarrow> string \<Rightarrow> pattern list option \<Rightarrow> exn + nat" where
  "count_statements parse source_code exclude_name_patterns =
     (case parse source_code of
        Inl e \<Rightarrow> Inl e
      | Inr root_node \<Rightarrow>
          tranverse_ast_stmt
            (node_effective_count
               (case exclude_name_patterns of None \<Rightarrow> [] | Some ps \<Rightarrow> ps))
            root_node 0)"

section \<open>Counting lines\<close>

datatype token_type =
    ENDMARKER | NAME | NUMBER | STRING | NEWLINE | INDENT | DEDENT | OP
  | AWAIT | ASYNC | TYPE_IGNORE | TYPE_COMMENT | SOFT_KEYWORD | ERRORTOKEN
  | COMMENT | NL | ENCODING | FSTRING_START | FSTRING_MIDDLE | FSTRING_END

text \<open>
  A token of the standard library's tokenizer: its type, its text, the (line, column) where
  it starts and where it ends, and the source line or lines it was found on.
\<close>

record token =
  tok_type :: token_type
  tok_string :: string
  tok_start :: "nat \<times> nat"
  tok_end :: "nat \<times> nat"
  tok_line :: string

record line_sets =
  nonblank_lines :: "nat set"
  inline_comment_lines :: "nat set"
  block_comment_lines :: "nat set"

definition empty_sets :: line_sets where
  "empty_sets = \<lparr>nonblank_lines = {}, inline_comment_lines = {}, block_comment_lines = {}\<rparr>"

text \<open>\<open>io.StringIO(s).readlines()\<close>: a line ends after each line feed; a last line without one counts.\<close>

fun readlines_from :: "string \<Rightarrow> string \<Rightarrow> string list" where
  "readlines_from cur [] = (if cur = [] then [] else [cur])"
| "readlines_from cur (c # cs) =
     (if c = CHR 0x0A then (cur @ [c]) # readlines_from [] cs
      else readlines_from (cur @ [c]) cs)"

definition readlines :: "string \<Rightarrow> string list" where
  "readlines s = readlines_from [] s"

text \<open>\<open>range(t.start[0], t.end[0] + 1)\<close>.\<close>

definition token_lines :: "token \<Rightarrow> nat list" where
  "token_lines t = [fst (tok_start t) ..< fst (tok_end t) + 1]"

text \<open>The first loop over the tokens.\<close>

fun first_pass :: "token list \<Rightarrow> line_sets \<Rightarrow> line_sets" where
  "first_pass [] st = st"
| "first_pass (t # ts) st =
     first_pass ts
       (if tok_type t = ENCODING \<or> tok_type t = ENDMARKER \<or> tok_type t = NEWLINE
           \<or> tok_type t = INDENT \<or> tok_type t = DEDENT \<or> tok_type t = NL
        then st
        else if tok_type t = COMMENT \<or> tok_type t = TYPE_COMMENT
        then st\<lparr>inline_comment_lines := inline_comment_lines st \<union> set (token_lines t),
                nonblank_lines := nonblank_lines st \<union> set (token_lines t)\<rparr>
        else if tok_type t = STRING
        then st
        else st\<lparr>nonblank_lines := nonblank_lines st \<union> set (token_lines t)\<rparr>)"

text \<open>\<open>s.replace(old, "")\<close> for a one-character \<open>old\<close>, \<open>s.startswith(p)\<close>, \<open>s.endswith(p)\<close>.\<close>

definition replace_char :: "char \<Rightarrow> string \<Rightarrow> string" where
  "replace_char old s = filter (\<lambda>c. c \<noteq> old) s"

definition startswith :: "string \<Rightarrow> string \<Rightarrow> bool" where
  "startswith s p = (take (length p) s = p)"

definition endswith :: "string \<Rightarrow> string \<Rightarrow> bool" where
  "endswith s p = (length p \<le> length s \<and> drop (length s - length p) s = p)"

definition squote3 :: string where
  "squote3 = [CHR 0x27, CHR 0x27, CHR 0x27]"

definition dquote3 :: string where
  "dquote3 = [CHR 0x22, CHR 0x22, CHR 0x22]"

text \<open>The line of a string token with line feed, space, tab and carriage return removed.\<close>

definition stripped_line :: "string \<Rightarrow> string" where
  "stripped_line l =
     replace_char (CHR 0x0D) (replace_char (CHR 0x09) (replace_char (CHR 0x20)
       (replace_char (CHR 0x0A) l)))"

definition triple_quoted :: "string \<Rightarrow> bool" where
  "triple_quoted line =
     ((startswith line squote3 \<and> endswith line squote3)
      \<or> (startswith line dquote3 \<and> endswith line dquote3))"

text \<open>The inner loop of the second pass, over the lines of one string token.\<close>

fun add_block_lines :: "nat list \<Rightarrow> line_sets \<Rightarrow> line_sets" where
  "add_block_lines [] st = st"
| "add_block_lines (lineno # rest) st =
     add_block_lines rest
       (if lineno \<notin> nonblank_lines st
        then st\<lparr>block_comment_lines := insert lineno (block_comment_lines st),
                nonblank_lines := insert lineno (nonblank_lines st)\<rparr>
        else st)"

text \<open>The second loop over the tokens.\<close>

fun second_pass :: "token list \<Rightarrow> line_sets \<Rightarrow> line_sets" where
  "second_pass [] st = st"
| "second_pass (t # ts) st =
     second_pass ts
       (if tok_type t = STRING
        then (if triple_quoted (stripped_line (tok_line t))
              then add_block_lines (token_lines t) st
              else st)
        else st)"

text \<open>
  \<open>count_lines(source_code)\<close>. The tokenizer belongs to the standard library and is a
  parameter: it answers the list of tokens or raises.
\<close>

definition count_lines ::
  "(string \<Rightarrow> exn + token list) \<Rightarrow> string \<Rightarrow> exn + nat \<times> nat \<times> nat" where
  "count_lines tokenize source_code =
     (let num_lines = length (readlines source_code) in
      case tokenize source_code of
        Inl e \<Rightarrow> Inl e
      | Inr tokens \<Rightarrow>
          (let st = second_pass tokens (first_pass tokens empty_sets) in
           Inr (num_lines, card (nonblank_lines st),
                card (inline_comment_lines st \<union> block_comment_lines st))))"

section \<open>Analysing one file\<close>

text \<open>The exception classes the two handlers of \<open>analyze_file\<close> catch, with their subclasses.\<close>

definition isinstance_OSError :: "exn \<Rightarrow> bool" where
  "isinstance_OSError e = (e = FileNotFoundError \<or> e = PermissionError \<or> e = OSError)"

definition isinstance_SyntaxError :: "exn \<Rightarrow> bool" where
  "isinstance_SyntaxError e = (e = SyntaxError \<or> e = IndentationError)"

text \<open>
  \<open>analyze_file(path, exclude_name_patterns)\<close>. Opening and reading the file is a parameter
  that answers the text or raises; the log is a list of messages, passed in and returned.
  The result is \<open>Inl e\<close> when the exception \<open>e\<close> leaves the function, \<open>Inr None\<close> when it
  returns \<open>None\<close>, and \<open>Inr (Some r)\<close> when it returns the tuple \<open>r\<close>.
\<close>

definition analyze_file ::
  "(string \<Rightarrow> exn + string) \<Rightarrow> (string \<Rightarrow> exn + node) \<Rightarrow> (string \<Rightarrow> exn + token list) \<Rightarrow>
   string \<Rightarrow> pattern list option \<Rightarrow> string list \<Rightarrow>
   (exn + (nat \<times> nat \<times> nat \<times> nat) option) \<times> string list" where
  "analyze_file read_file parse tokenize path exclude_name_patterns log =
     (case
        (case read_file path of
           Inl e \<Rightarrow> Inl e
         | Inr source_code \<Rightarrow>
             (case count_statements parse source_code exclude_name_patterns of
                Inl e \<Rightarrow> Inl e
              | Inr num_statement \<Rightarrow>
                  (case count_lines tokenize source_code of
                     Inl e \<Rightarrow> Inl e
                   | Inr (num_line, num_nonblank_line, num_commented_line) \<Rightarrow>
                       Inr (num_line, num_nonblank_line, num_statement, num_commented_line))))
      of
        Inl e \<Rightarrow>
          if e = FileNotFoundError \<or> isinstance_OSError e
          then (Inr None, log @ [''Failed to open: '' @ path])
          else if isinstance_SyntaxError e \<or> e = TokenError
          then (Inr None, log @ [''File has syntax error: '' @ path])
          else (Inl e, log)
      | Inr r \<Rightarrow> (Inr (Some r), log))"

section \<open>Moving a tree to other lines\<close>


text \<open>
  The classes the traversal lists in one of its four \<open>isinstance\<close> tests; a node of any
  other class reaches the final \<open>else\<close>.
\<close>

fun recognized :: "node \<Rightarrow> bool" where
  "recognized (AnnAssign l) = False"
| "recognized (TypeAlias l) = False"
| "recognized (TryStar l body handlers orelse finalbody) = False"
| "recognized (Match l cases) = False"
| "recognized NonStmt = False"
| "recognized n = True"




section \<open>Notions of the line classifier\<close>

text \<open>
  Removing every whitespace character of a line, as the specification words the test of the
  second pass: space, tab, line feed, carriage return, vertical tab and form feed.
\<close>

definition strip_all_whitespace :: "string \<Rightarrow> string" where
  "strip_all_whitespace l =
     filter (\<lambda>c. c \<noteq> CHR 0x20 \<and> c \<noteq> CHR 0x09 \<and> c \<noteq> CHR 0x0A \<and> c \<noteq> CHR 0x0D
                \<and> c \<noteq> CHR 0x0B \<and> c \<noteq> CHR 0x0C) l"

text \<open>The lines that the string tokens passing the test of the second pass span.\<close>

definition block_candidates :: "token list \<Rightarrow> nat set" where
  "block_candidates tokens =
     {l. \<exists>t\<in>set tokens. tok_type t = STRING \<and> triple_quoted (stripped_line (tok_line t))
                          \<and> l \<in> set (token_lines t)}"

text \<open>
  The tokens that the first pass skips: they mark no line. Every other token, a string
  token included, has text on the lines it spans.
\<close>

definition structural :: "token \<Rightarrow> bool" where
  "structural t =
     (tok_type t = ENCODING \<or> tok_type t = ENDMARKER \<or> tok_type t = NEWLINE
      \<or> tok_type t = INDENT \<or> tok_type t = DEDENT \<or> tok_type t = NL)"

text \<open>
  The physical line of the text on which a token starts, and the text of all the physical
  lines a token spans, from the line it starts on to the line it ends on.
\<close>

definition starting_line :: "string \<Rightarrow> token \<Rightarrow> string" where
  "starting_line src t = concat (take 1 (drop (fst (tok_start t) - 1) (readlines src)))"

definition spanned_text :: "string \<Rightarrow> token \<Rightarrow> string" where
  "spanned_text src t =
     concat (take (fst (tok_end t) + 1 - fst (tok_start t))
               (drop (fst (tok_start t) - 1) (readlines src)))"

section \<open>Example inputs\<close>

text \<open>The tokens of the one-line source text made of a form feed and a docstring.\<close>

definition form_feed_source :: string where
  "form_feed_source = [CHR 0x0C] @ dquote3 @ ''doc'' @ dquote3 @ [CHR 0x0A]"

definition form_feed_tokens :: "token list" where
  "form_feed_tokens =
     [\<lparr>tok_type = STRING, tok_string = dquote3 @ ''doc'' @ dquote3,
       tok_start = (1, 1), tok_end = (1, 10), tok_line = form_feed_source\<rparr>,
      \<lparr>tok_type = NEWLINE, tok_string = [CHR 0x0A],
       tok_start = (1, 10), tok_end = (1, 11), tok_line = form_feed_source\<rparr>,
      \<lparr>tok_type = ENDMARKER, tok_string = [],
       tok_start = (2, 0), tok_end = (2, 0), tok_line = []\<rparr>]"

text \<open>The source text of the end-to-end scenario and the tokens the tokenizer answers for it.\<close>

definition scenario_source :: string where
  "scenario_source =
     ''# comment'' @ [CHR 0x0A, CHR 0x0A] @ dquote3 @ [CHR 0x0A] @ ''block'' @ [CHR 0x0A]
       @ dquote3 @ [CHR 0x0A]"

definition scenario_tokens :: "token list" where
  "scenario_tokens =
     [\<lparr>tok_type = COMMENT, tok_string = ''# comment'',
       tok_start = (1, 0), tok_end = (1, 9), tok_line = ''# comment'' @ [CHR 0x0A]\<rparr>,
      \<lparr>tok_type = NL, tok_string = [CHR 0x0A],
       tok_start = (1, 9), tok_end = (1, 10), tok_line = ''# comment'' @ [CHR 0x0A]\<rparr>,
      \<lparr>tok_type = NL, tok_string = [CHR 0x0A],
       tok_start = (2, 0), tok_end = (2, 1), tok_line = [CHR 0x0A]\<rparr>,
      \<lparr>tok_type = STRING,
       tok_string = dquote3 @ [CHR 0x0A] @ ''block'' @ [CHR 0x0A] @ dquote3,
       tok_start = (3, 0), tok_end = (5, 3),
       tok_line = dquote3 @ [CHR 0x0A] @ ''block'' @ [CHR 0x0A] @ dquote3 @ [CHR 0x0A]\<rparr>,
      \<lparr>tok_type = NEWLINE, tok_string = [CHR 0x0A],
       tok_start = (5, 3), tok_end = (5, 4), tok_line = dquote3 @ [CHR 0x0A]\<rparr>,
      \<lparr>tok_type = ENDMARKER, tok_string = [],
       tok_start = (6, 0), tok_end = (6, 0), tok_line = []\<rparr>]"

text \<open>
  A file system with a missing file, a file with an unbalanced bracket and a file that holds
  \<open>pass\<close>, with what the parser and the tokenizer answer for the two texts.
\<close>

definition example_read :: "string \<Rightarrow> exn + string" where
  "example_read path =
     (if path = ''missing.py'' then Inl FileNotFoundError
      else if path = ''broken.py'' then Inr ''x = (1,''
      else Inr ''pass'')"

definition example_parse :: "string \<Rightarrow> exn + node" where
  "example_parse s = (if s = ''pass'' then Inr (Module [Pass 1]) else Inl SyntaxError)"

definition example_tokenize :: "string \<Rightarrow> exn + token list" where
  "example_tokenize s =
     (if s = ''pass''
      then Inr [\<lparr>tok_type = NAME, tok_string = ''pass'',
                  tok_start = (1, 0), tok_end = (1, 4), tok_line = ''pass''\<rparr>,
                \<lparr>tok_type = NEWLINE, tok_string = [],
                  tok_start = (1, 4), tok_end = (1, 5), tok_line = []\<rparr>,
                \<lparr>tok_type = ENDMARKER, tok_string = [],
                  tok_start = (2, 0), tok_end = (2, 0), tok_line = []\<rparr>]
      else Inl TokenError)"

text \<open>What the tokenizer answers for the empty text: the end marker alone.\<close>

definition empty_source_tokens :: "token list" where
  "empty_source_tokens =
     [\<lparr>tok_type = ENDMARKER, tok_string = [],
       tok_start = (1, 0), tok_end = (1, 0), tok_line = []\<rparr>]"

text \<open>
  A two-line docstring with text after the opening quotes, and the tokens the tokenizer
  answers for it: the line of the string token holds both lines.
\<close>

definition docstring_source :: string where
  "docstring_source = dquote3 @ ''doc'' @ [CHR 0x0A] @ dquote3 @ [CHR 0x0A]"

definition docstring_tokens :: "token list" where
  "docstring_tokens =
     [\<lparr>tok_type = STRING, tok_string = dquote3 @ ''doc'' @ [CHR 0x0A] @ dquote3,
       tok_start = (1, 0), tok_end = (2, 3),
       tok_line = dquote3 @ ''doc'' @ [CHR 0x0A] @ dquote3 @ [CHR 0x0A]\<rparr>,
      \<lparr>tok_type = NEWLINE, tok_string = [CHR 0x0A],
       tok_start = (2, 3), tok_end = (2, 4), tok_line = dquote3 @ [CHR 0x0A]\<rparr>,
      \<lparr>tok_type = ENDMARKER, tok_string = [],
       tok_start = (3, 0), tok_end = (3, 0), tok_line = []\<rparr>]"






section \<open>Properties of the statement counter\<close>

declare tranverse_ast_stmt.simps [simp del]

lemma effective_count_snd:
  "snd (node_effective_count pats node c) =
     (case node of
        Module body \<Rightarrow> c
      | Expr l v \<Rightarrow> if v = Await \<or> v = Yield \<or> v = YieldFrom \<or> v = Call then c + 1 else c
      | _ \<Rightarrow> c + 1)"
  by (cases node) (simp_all add: node_effective_count_def)

lemma effective_count_fst:
  "fst (node_effective_count pats node c) =
     (case definition_name node of
        Some name \<Rightarrow> \<not> list_ex (\<lambda>p. p name) pats
      | None \<Rightarrow> True)"
  by (cases node) (simp_all add: node_effective_count_def)


lemma tranverse_unrecognized:
  assumes "\<not> recognized n"
  shows "tranverse_ast_stmt callback n s =
           (if fst (callback n s) \<and> \<not> isinstance_stmt n then Inl AssertionError
            else Inr (snd (callback n s)))"
  using assms by (cases n) (simp_all add: tranverse_ast_stmt.simps split: prod.splits)



text \<open>
  Claim C1, as the code has it. What the callback adds for a container node itself: nothing
  for the module; one for an exception handler, for a \<open>with\<close> and for an \<open>async with\<close>
  block; one for a function, an async function and a class definition, as for a simple
  statement such as \<open>pass\<close>. After counting the node the traversal goes through the body of
  a module, a handler or a \<open>with\<close> block in order.
\<close>

theorem container_own_contribution:
  "snd (node_effective_count pats (Module body) c) = c
   \<and> snd (node_effective_count pats (ExceptHandler l body) c) = c + 1
   \<and> snd (node_effective_count pats (With l body) c) = c + 1
   \<and> snd (node_effective_count pats (AsyncWith l body) c) = c + 1
   \<and> snd (node_effective_count pats (FunctionDef l name body) c) = c + 1
   \<and> snd (node_effective_count pats (AsyncFunctionDef l name body) c) = c + 1
   \<and> snd (node_effective_count pats (ClassDef l name body) c) = c + 1
   \<and> snd (node_effective_count pats (Pass l) c) = c + 1
   \<and> tranverse_ast_stmt (node_effective_count pats) (Module body) c
       = tranverse_body (node_effective_count pats) body c
   \<and> tranverse_ast_stmt (node_effective_count pats) (ExceptHandler l body) c
       = tranverse_body (node_effective_count pats) body (c + 1)
   \<and> tranverse_ast_stmt (node_effective_count pats) (With l body) c
       = tranverse_body (node_effective_count pats) body (c + 1)
   \<and> tranverse_ast_stmt (node_effective_count pats) (AsyncWith l body) c
       = tranverse_body (node_effective_count pats) body (c + 1)"
  by (simp add: effective_count_snd tranverse_ast_stmt.simps node_effective_count_def)

text \<open>
  Claim C1 as it is written fails: a \<open>with\<close> block and an exception handler each add one to
  the count, not zero. The module \<open>with a: pass\<close> counts two statements, the module
  \<open>pass\<close> one.
\<close>

theorem with_block_contributes_one:
  "snd (node_effective_count [] (With 1 [Pass 1]) 0) \<noteq> 0
   \<and> snd (node_effective_count [] (ExceptHandler 3 [Pass 4]) 0) \<noteq> 0
   \<and> count_statements (\<lambda>s. Inr (Module [With 1 [Pass 1]])) ''with a: pass'' None = Inr 2
   \<and> count_statements (\<lambda>s. Inr (Module [Pass 1])) ''pass'' None = Inr 1"
  by (simp add: effective_count_snd count_statements_def tranverse_ast_stmt.simps
        node_effective_count_def)






text \<open>
  Claim C3. An expression statement adds one to the count exactly when its value is a call,
  an await, a yield or a yield-from expression, and the traversal stops there; a literal or
  a name adds nothing.
\<close>

theorem expression_statement_count:
  "node_effective_count pats (Expr l v) c
     = (True, if v = Await \<or> v = Yield \<or> v = YieldFrom \<or> v = Call then c + 1 else c)
   \<and> tranverse_ast_stmt (node_effective_count pats) (Expr l v) c
     = Inr (if v = Await \<or> v = Yield \<or> v = YieldFrom \<or> v = Call then c + 1 else c)
   \<and> (snd (node_effective_count pats (Expr l v) c) = c + 1)
     = (v = Call \<or> v = Await \<or> v = Yield \<or> v = YieldFrom)
   \<and> snd (node_effective_count pats (Expr l Constant) c) = c
   \<and> snd (node_effective_count pats (Expr l Name) c) = c
   \<and> snd (node_effective_count pats (Expr l Call) c) = c + 1"
  by (auto simp: tranverse_ast_stmt.simps node_effective_count_def)

section \<open>Properties of the line classifier\<close>

lemma block_candidates_Nil: "block_candidates [] = {}"
  by (simp add: block_candidates_def)

lemma block_candidates_Cons:
  "block_candidates (t # ts) =
     (if tok_type t = STRING \<and> triple_quoted (stripped_line (tok_line t))
      then set (token_lines t) else {}) \<union> block_candidates ts"
  by (auto simp: block_candidates_def)

lemma add_block_lines_eq:
  "add_block_lines ls st =
     st\<lparr>block_comment_lines := block_comment_lines st \<union> (set ls - nonblank_lines st),
        nonblank_lines := nonblank_lines st \<union> set ls\<rparr>"
proof (induction ls arbitrary: st)
  case Nil
  then show ?case by simp
next
  case (Cons l ls)
  show ?case
  proof (cases "l \<in> nonblank_lines st")
    case True
    then have "insert l (set ls) - nonblank_lines st = set ls - nonblank_lines st"
      and "nonblank_lines st \<union> insert l (set ls) = nonblank_lines st \<union> set ls"
      by auto
    with True show ?thesis by (simp add: Cons.IH)
  next
    case False
    then have "insert l (block_comment_lines st) \<union> (set ls - insert l (nonblank_lines st))
        = block_comment_lines st \<union> (insert l (set ls) - nonblank_lines st)"
      and "insert l (nonblank_lines st) \<union> set ls = nonblank_lines st \<union> insert l (set ls)"
      by auto
    with False show ?thesis by (simp add: Cons.IH)
  qed
qed

lemma second_pass_eq:
  "second_pass tokens st =
     st\<lparr>block_comment_lines :=
          block_comment_lines st \<union> (block_candidates tokens - nonblank_lines st),
        nonblank_lines := nonblank_lines st \<union> block_candidates tokens\<rparr>"
proof (induction tokens arbitrary: st)
  case Nil
  then show ?case by (simp add: block_candidates_Nil)
next
  case (Cons t ts)
  show ?case
  proof (cases "tok_type t = STRING \<and> triple_quoted (stripped_line (tok_line t))")
    case True
    have "block_comment_lines st \<union> (set (token_lines t) - nonblank_lines st)
          \<union> (block_candidates ts - (nonblank_lines st \<union> set (token_lines t)))
        = block_comment_lines st
          \<union> (set (token_lines t) \<union> block_candidates ts - nonblank_lines st)"
      and "nonblank_lines st \<union> set (token_lines t) \<union> block_candidates ts
        = nonblank_lines st \<union> (set (token_lines t) \<union> block_candidates ts)"
      by auto
    with True show ?thesis
      by (simp add: Cons.IH add_block_lines_eq block_candidates_Cons)
  next
    case False
    then show ?thesis
      by (auto simp: Cons.IH block_candidates_Cons)
  qed
qed

lemma stripped_line_filter:
  "stripped_line l =
     filter (\<lambda>c. c \<noteq> CHR 0x0A \<and> c \<noteq> CHR 0x20 \<and> c \<noteq> CHR 0x09 \<and> c \<noteq> CHR 0x0D) l"
  by (induction l) (auto simp: stripped_line_def replace_char_def)

text \<open>
  Claim C4, as the code has it. The test reads the line attribute of a string token, which
  the tokenizer fills with the text of all the lines the token spans and not with the line
  it starts on alone. That text is tested with every line feed, space, tab and carriage
  return removed, and with nothing else removed. When what is left starts and ends with the
  same triple quote, each line the token spans that is not yet nonblank joins the nonblank
  set and the block-comment set; any other token leaves the three sets as they are. Over the
  whole token list the block-comment set becomes the lines spanned by such string tokens
  that the first pass did not mark nonblank, the nonblank set grows by the same lines, and
  the inline-comment set stays.
\<close>

theorem second_pass_block_comments:
  "stripped_line l
     = filter (\<lambda>c. c \<noteq> CHR 0x0A \<and> c \<noteq> CHR 0x20 \<and> c \<noteq> CHR 0x09 \<and> c \<noteq> CHR 0x0D) l
   \<and> second_pass [t] st =
       (if tok_type t = STRING \<and> triple_quoted (stripped_line (tok_line t))
        then st\<lparr>block_comment_lines :=
                  block_comment_lines st \<union> (set (token_lines t) - nonblank_lines st),
                nonblank_lines := nonblank_lines st \<union> set (token_lines t)\<rparr>
        else st)
   \<and> block_comment_lines (second_pass tokens (first_pass tokens empty_sets))
       = {l. \<exists>t\<in>set tokens. tok_type t = STRING \<and> triple_quoted (stripped_line (tok_line t))
                              \<and> l \<in> set (token_lines t)
                              \<and> l \<notin> nonblank_lines (first_pass tokens empty_sets)}
   \<and> nonblank_lines (second_pass tokens (first_pass tokens empty_sets))
       = nonblank_lines (first_pass tokens empty_sets)
         \<union> block_comment_lines (second_pass tokens (first_pass tokens empty_sets))
   \<and> inline_comment_lines (second_pass tokens (first_pass tokens empty_sets))
       = inline_comment_lines (first_pass tokens empty_sets)
   \<and> ((\<forall>t\<in>set tokens. tok_type t = STRING \<longrightarrow> tok_line t = spanned_text src t) \<longrightarrow>
        block_comment_lines (second_pass tokens (first_pass tokens empty_sets))
          = {l. \<exists>t\<in>set tokens. tok_type t = STRING
                   \<and> triple_quoted (stripped_line (spanned_text src t))
                   \<and> l \<in> set (token_lines t)
                   \<and> l \<notin> nonblank_lines (first_pass tokens empty_sets)})"
proof -
  have blk: "block_comment_lines (first_pass ts st') = block_comment_lines st'" for ts st'
    by (induction ts arbitrary: st') simp_all
  have one: "second_pass [t] st =
       (if tok_type t = STRING \<and> triple_quoted (stripped_line (tok_line t))
        then st\<lparr>block_comment_lines :=
                  block_comment_lines st \<union> (set (token_lines t) - nonblank_lines st),
                nonblank_lines := nonblank_lines st \<union> set (token_lines t)\<rparr>
        else st)"
    by (simp add: add_block_lines_eq)
  have all: "block_comment_lines (second_pass tokens (first_pass tokens empty_sets))
       = {l. \<exists>t\<in>set tokens. tok_type t = STRING \<and> triple_quoted (stripped_line (tok_line t))
                              \<and> l \<in> set (token_lines t)
                              \<and> l \<notin> nonblank_lines (first_pass tokens empty_sets)}"
    by (auto simp: second_pass_eq blk empty_sets_def block_candidates_def)
  have nb: "nonblank_lines (second_pass tokens (first_pass tokens empty_sets))
       = nonblank_lines (first_pass tokens empty_sets)
         \<union> block_comment_lines (second_pass tokens (first_pass tokens empty_sets))"
    by (auto simp: second_pass_eq blk empty_sets_def)
  have inl: "inline_comment_lines (second_pass tokens (first_pass tokens empty_sets))
       = inline_comment_lines (first_pass tokens empty_sets)"
    by (simp add: second_pass_eq)
  have spanned: "(\<forall>t\<in>set tokens. tok_type t = STRING \<longrightarrow> tok_line t = spanned_text src t) \<longrightarrow>
        block_comment_lines (second_pass tokens (first_pass tokens empty_sets))
          = {l. \<exists>t\<in>set tokens. tok_type t = STRING
                   \<and> triple_quoted (stripped_line (spanned_text src t))
                   \<and> l \<in> set (token_lines t)
                   \<and> l \<notin> nonblank_lines (first_pass tokens empty_sets)}"
    unfolding all by auto
  from stripped_line_filter one all nb inl spanned show ?thesis
    by blast
qed

theorem second_pass_block_comments_witness:
  "tok_type (hd docstring_tokens) = STRING
   \<and> tok_line (hd docstring_tokens) = spanned_text docstring_source (hd docstring_tokens)
   \<and> block_comment_lines (second_pass docstring_tokens (first_pass docstring_tokens empty_sets))
       = {l. \<exists>t\<in>set docstring_tokens. tok_type t = STRING
                \<and> triple_quoted (stripped_line (spanned_text docstring_source t))
                \<and> l \<in> set (token_lines t)
                \<and> l \<notin> nonblank_lines (first_pass docstring_tokens empty_sets)}"
proof -
  have contract: "\<forall>t\<in>set docstring_tokens. tok_type t = STRING \<longrightarrow>
      tok_line t = spanned_text docstring_source t"
    by (simp add: docstring_tokens_def docstring_source_def spanned_text_def readlines_def
          dquote3_def)
  have "tok_type (hd docstring_tokens) = STRING"
    by (simp add: docstring_tokens_def)
  moreover have "tok_line (hd docstring_tokens)
      = spanned_text docstring_source (hd docstring_tokens)"
    by (simp add: docstring_tokens_def docstring_source_def spanned_text_def readlines_def
          dquote3_def)
  ultimately show ?thesis
    using contract
      second_pass_block_comments [where tokens = docstring_tokens and src = docstring_source]
    by blast
qed

text \<open>
  Claim C4 as it is written fails in two ways. Whitespace other than the four characters
  stays: the line of the string token of the text made of a form feed and \<open>"""doc"""\<close>
  starts and ends with the triple quote once all its whitespace is removed, and line 1 is
  not nonblank after the first pass; yet the second pass adds no line, and the text has no
  nonblank line and no commented line. And the test does not read the starting line alone:
  for the docstring whose first line is \<open>"""doc\<close> and whose second line is \<open>"""\<close> the
  starting line does not end with the triple quote, whatever whitespace is removed; yet
  both lines become block-comment lines.
\<close>

theorem form_feed_line_not_block_comment:
  "tok_type (hd form_feed_tokens) = STRING
   \<and> triple_quoted (strip_all_whitespace (tok_line (hd form_feed_tokens)))
   \<and> triple_quoted (strip_all_whitespace (starting_line form_feed_source (hd form_feed_tokens)))
   \<and> token_lines (hd form_feed_tokens) = [1]
   \<and> 1 \<notin> nonblank_lines (first_pass form_feed_tokens empty_sets)
   \<and> block_comment_lines (second_pass form_feed_tokens (first_pass form_feed_tokens empty_sets))
       = {}
   \<and> count_lines (\<lambda>s. Inr form_feed_tokens) form_feed_source = Inr (1, 0, 0)
   \<and> tok_type (hd docstring_tokens) = STRING
   \<and> \<not> triple_quoted
         (strip_all_whitespace (starting_line docstring_source (hd docstring_tokens)))
   \<and> \<not> triple_quoted (stripped_line (starting_line docstring_source (hd docstring_tokens)))
   \<and> block_comment_lines (second_pass docstring_tokens (first_pass docstring_tokens empty_sets))
       = {1, 2}
   \<and> count_lines (\<lambda>s. Inr docstring_tokens) docstring_source = Inr (2, 2, 2)"
  by (simp add: form_feed_tokens_def form_feed_source_def docstring_tokens_def
        docstring_source_def starting_line_def triple_quoted_def
        strip_all_whitespace_def stripped_line_def replace_char_def startswith_def endswith_def
        dquote3_def squote3_def token_lines_def empty_sets_def count_lines_def readlines_def
        upt_rec numeral_2_eq_2 insert_commute)

lemma first_pass_inline_subset:
  "inline_comment_lines st \<subseteq> nonblank_lines st
   \<Longrightarrow> inline_comment_lines (first_pass tokens st) \<subseteq> nonblank_lines (first_pass tokens st)"
proof (induction tokens arbitrary: st)
  case Nil
  then show ?case by simp
next
  case (Cons t ts)
  show ?case
    unfolding first_pass.simps by (rule Cons.IH) (use Cons.prems in auto)
qed

lemma first_pass_nonblank_bound:
  "nonblank_lines st \<subseteq> A
   \<Longrightarrow> \<forall>t\<in>set tokens. \<not> structural t \<longrightarrow> set (token_lines t) \<subseteq> A
   \<Longrightarrow> nonblank_lines (first_pass tokens st) \<subseteq> A"
proof (induction tokens arbitrary: st)
  case Nil
  then show ?case by simp
next
  case (Cons t ts)
  have "\<forall>t\<in>set ts. \<not> structural t \<longrightarrow> set (token_lines t) \<subseteq> A"
    using Cons.prems(2) by simp
  moreover have "\<not> structural t \<longrightarrow> set (token_lines t) \<subseteq> A"
    using Cons.prems(2) by simp
  ultimately show ?case
    unfolding first_pass.simps
    by (intro Cons.IH) (use Cons.prems(1) in \<open>auto simp: structural_def\<close>)
qed

lemma block_candidates_bound:
  "\<forall>t\<in>set tokens. \<not> structural t \<longrightarrow> set (token_lines t) \<subseteq> A
   \<Longrightarrow> block_candidates tokens \<subseteq> A"
  by (fastforce simp: block_candidates_def structural_def)

lemma token_lines_bound:
  "1 \<le> fst (tok_start t) \<Longrightarrow> fst (tok_end t) \<le> n \<Longrightarrow> set (token_lines t) \<subseteq> {1..n}"
  by (auto simp: token_lines_def)

text \<open>
  Claim C5. When the tokenizer answers a token list whose tokens, the skipped ones aside,
  lie on lines 1 to the number of lines of the text, \<open>count_lines\<close> returns a triple with
  total lines at least nonblank lines, nonblank lines at least commented lines and commented
  lines at least zero, the commented lines being the size of the union of the inline-comment
  set and the block-comment set.
\<close>

theorem line_counts_ordered:
  assumes "tokenize src = Inr tokens"
    and "\<forall>t\<in>set tokens. \<not> structural t \<longrightarrow>
           1 \<le> fst (tok_start t) \<and> fst (tok_end t) \<le> length (readlines src)"
  shows "\<exists>num_lines nonblank commented.
           count_lines tokenize src = Inr (num_lines, nonblank, commented)
           \<and> num_lines \<ge> nonblank \<and> nonblank \<ge> commented \<and> commented \<ge> 0
           \<and> num_lines = length (readlines src)
           \<and> commented = card
               (inline_comment_lines (second_pass tokens (first_pass tokens empty_sets))
                \<union> block_comment_lines (second_pass tokens (first_pass tokens empty_sets)))"
proof -
  let ?n = "length (readlines src)"
  let ?st1 = "first_pass tokens empty_sets"
  let ?st2 = "second_pass tokens ?st1"
  have spans: "\<forall>t\<in>set tokens. \<not> structural t \<longrightarrow> set (token_lines t) \<subseteq> {1..?n}"
    using assms(2) token_lines_bound by blast
  have nb1: "nonblank_lines ?st1 \<subseteq> {1..?n}"
    by (rule first_pass_nonblank_bound [OF _ spans]) (simp add: empty_sets_def)
  have nb2: "nonblank_lines ?st2 \<subseteq> {1..?n}"
    using nb1 block_candidates_bound [OF spans] by (simp add: second_pass_eq)
  have inl1: "inline_comment_lines ?st1 \<subseteq> nonblank_lines ?st1"
    by (rule first_pass_inline_subset) (simp add: empty_sets_def)
  have blk1: "block_comment_lines ?st1 = {}"
  proof -
    have "block_comment_lines (first_pass ts st) = block_comment_lines st" for ts st
      by (induction ts arbitrary: st) simp_all
    then show ?thesis by (simp add: empty_sets_def)
  qed
  have cm: "inline_comment_lines ?st2 \<union> block_comment_lines ?st2 \<subseteq> nonblank_lines ?st2"
    using inl1 blk1 by (auto simp: second_pass_eq)
  have fin: "finite (nonblank_lines ?st2)"
    using nb2 finite_subset by blast
  have "card (nonblank_lines ?st2) \<le> card {1..?n}"
    using nb2 by (intro card_mono) simp_all
  then have le_total: "card (nonblank_lines ?st2) \<le> ?n"
    by simp
  have le_nonblank:
    "card (inline_comment_lines ?st2 \<union> block_comment_lines ?st2) \<le> card (nonblank_lines ?st2)"
    using cm fin by (rule card_mono [rotated])
  have "count_lines tokenize src
      = Inr (?n, card (nonblank_lines ?st2),
             card (inline_comment_lines ?st2 \<union> block_comment_lines ?st2))"
    using assms(1) by (simp add: count_lines_def Let_def)
  with le_total le_nonblank show ?thesis
    by simp
qed

lemma scenario_sets:
  "second_pass scenario_tokens (first_pass scenario_tokens empty_sets)
     = \<lparr>nonblank_lines = {1, 3, 4, 5}, inline_comment_lines = {1},
        block_comment_lines = {3, 4, 5}\<rparr>"
  by (simp add: scenario_tokens_def empty_sets_def token_lines_def triple_quoted_def
        stripped_line_def replace_char_def startswith_def endswith_def dquote3_def squote3_def
        upt_rec insert_commute)

text \<open>
  Claim C6. For the text of a comment line, a blank line and a three-line triple-quoted
  string, with the tokens the tokenizer answers for it, \<open>count_lines\<close> returns 5 total
  lines, 4 nonblank lines (the lines 1, 3, 4 and 5) and 4 commented lines.
\<close>

theorem scenario_line_counts:
  assumes "tokenize scenario_source = Inr scenario_tokens"
  shows "count_lines tokenize scenario_source = Inr (5, 4, 4)
         \<and> nonblank_lines (second_pass scenario_tokens (first_pass scenario_tokens empty_sets))
             = {1, 3, 4, 5}"
proof -
  have "length (readlines scenario_source) = 5"
    by (simp add: scenario_source_def readlines_def dquote3_def)
  moreover have "card {1, 3, 4, 5::nat} = 4" and "card ({1} \<union> {3, 4, 5::nat}) = 4"
    by simp_all
  ultimately show ?thesis
    using assms by (simp add: count_lines_def Let_def scenario_sets)
qed

theorem scenario_line_counts_witness:
  "count_lines (\<lambda>s. Inr scenario_tokens) scenario_source = Inr (5, 4, 4)"
  using scenario_line_counts [of "\<lambda>s. Inr scenario_tokens"] by simp

theorem line_counts_ordered_witness:
  "\<exists>num_lines nonblank commented.
     count_lines (\<lambda>s. Inr scenario_tokens) scenario_source = Inr (num_lines, nonblank, commented)
     \<and> num_lines \<ge> nonblank \<and> nonblank \<ge> commented \<and> commented \<ge> 0"
proof -
  have len: "length (readlines scenario_source) = 5"
    by (simp add: scenario_source_def readlines_def dquote3_def)
  have "\<forall>t\<in>set scenario_tokens. \<not> structural t \<longrightarrow>
          1 \<le> fst (tok_start t) \<and> fst (tok_end t) \<le> length (readlines scenario_source)"
    unfolding len by (simp add: scenario_tokens_def structural_def)
  from line_counts_ordered [of "\<lambda>s. Inr scenario_tokens" scenario_source scenario_tokens,
      OF refl this]
  show ?thesis by blast
qed

section \<open>Properties of the file analyser\<close>

text \<open>
  Claim C7, as the code has it. When opening or reading the file raises an \<open>OSError\<close> (a
  missing file included), and when the parser or the tokenizer raises a syntax error or a
  token error, \<open>analyze_file\<close> returns \<open>None\<close>, no exception leaves it, and one message is
  added to the log. An exception of any other class raised while reading, such as the
  decoding error of a file that is not UTF-8, is not caught: it leaves the function and
  nothing is logged. When reading and both counters succeed it returns the tuple of total
  lines, nonblank lines, statements and commented lines, and logs nothing.
\<close>

theorem analyze_file_absent_or_complete:
  "(read_file path = Inl e \<and> isinstance_OSError e \<longrightarrow>
      analyze_file read_file parse tokenize path pats log
        = (Inr None, log @ [''Failed to open: '' @ path]))
   \<and> (read_file path = Inr src \<and> parse src = Inl e
        \<and> (isinstance_SyntaxError e \<or> e = TokenError) \<longrightarrow>
      analyze_file read_file parse tokenize path pats log
        = (Inr None, log @ [''File has syntax error: '' @ path]))
   \<and> (read_file path = Inr src \<and> count_statements parse src pats = Inr n
        \<and> tokenize src = Inl e \<and> (isinstance_SyntaxError e \<or> e = TokenError) \<longrightarrow>
      analyze_file read_file parse tokenize path pats log
        = (Inr None, log @ [''File has syntax error: '' @ path]))
   \<and> (read_file path = Inr src \<and> count_statements parse src pats = Inr n
        \<and> count_lines tokenize src = Inr (num_lines, nonblank, commented) \<longrightarrow>
      analyze_file read_file parse tokenize path pats log
        = (Inr (Some (num_lines, nonblank, n, commented)), log))
   \<and> (read_file path = Inl e \<and> \<not> isinstance_OSError e \<and> \<not> isinstance_SyntaxError e
        \<and> e \<noteq> TokenError \<longrightarrow>
      analyze_file read_file parse tokenize path pats log = (Inl e, log))"
proof -
  have syn: "isinstance_SyntaxError e \<or> e = TokenError
      \<Longrightarrow> \<not> (e = FileNotFoundError \<or> isinstance_OSError e)"
    by (auto simp: isinstance_SyntaxError_def isinstance_OSError_def)
  have "read_file path = Inl e \<and> isinstance_OSError e \<longrightarrow>
      analyze_file read_file parse tokenize path pats log
        = (Inr None, log @ [''Failed to open: '' @ path])"
    by (simp add: analyze_file_def)
  moreover have "read_file path = Inr src \<and> parse src = Inl e
        \<and> (isinstance_SyntaxError e \<or> e = TokenError) \<longrightarrow>
      analyze_file read_file parse tokenize path pats log
        = (Inr None, log @ [''File has syntax error: '' @ path])"
    using syn by (auto simp: analyze_file_def count_statements_def)
  moreover have "read_file path = Inr src \<and> count_statements parse src pats = Inr n
        \<and> tokenize src = Inl e \<and> (isinstance_SyntaxError e \<or> e = TokenError) \<longrightarrow>
      analyze_file read_file parse tokenize path pats log
        = (Inr None, log @ [''File has syntax error: '' @ path])"
    using syn by (auto simp: analyze_file_def count_lines_def)
  moreover have "read_file path = Inr src \<and> count_statements parse src pats = Inr n
        \<and> count_lines tokenize src = Inr (num_lines, nonblank, commented) \<longrightarrow>
      analyze_file read_file parse tokenize path pats log
        = (Inr (Some (num_lines, nonblank, n, commented)), log)"
    by (simp add: analyze_file_def)
  moreover have "read_file path = Inl e \<and> \<not> isinstance_OSError e
        \<and> \<not> isinstance_SyntaxError e \<and> e \<noteq> TokenError \<longrightarrow>
      analyze_file read_file parse tokenize path pats log = (Inl e, log)"
    by (auto simp: analyze_file_def isinstance_OSError_def)
  ultimately show ?thesis
    by blast
qed

theorem analyze_file_absent_or_complete_witness:
  "analyze_file example_read example_parse example_tokenize ''missing.py'' None []
     = (Inr None, [''Failed to open: missing.py''])
   \<and> analyze_file example_read example_parse example_tokenize ''broken.py'' None []
     = (Inr None, [''File has syntax error: broken.py''])
   \<and> analyze_file example_read example_parse (\<lambda>s. Inl TokenError) ''ok.py'' None []
     = (Inr None, [''File has syntax error: ok.py''])
   \<and> analyze_file example_read example_parse example_tokenize ''ok.py'' None []
     = (Inr (Some (1, 1, 1, 0)), [])
   \<and> analyze_file (\<lambda>p. Inl UnicodeDecodeError) example_parse example_tokenize ''latin1.py''
        None []
     = (Inl UnicodeDecodeError, [])"
proof -
  have stmts: "count_statements example_parse ''pass'' None = Inr 1"
    by (simp add: count_statements_def example_parse_def tranverse_ast_stmt.simps
          node_effective_count_def)
  have lines: "count_lines example_tokenize ''pass'' = Inr (1, 1, 0)"
    by (simp add: count_lines_def example_tokenize_def readlines_def empty_sets_def
          token_lines_def)
  have "analyze_file example_read example_parse example_tokenize ''missing.py'' None []
     = (Inr None, [''Failed to open: missing.py''])"
    using analyze_file_absent_or_complete
      [of example_read "''missing.py''" FileNotFoundError example_parse example_tokenize
          None "[]"]
    by (simp add: example_read_def isinstance_OSError_def)
  moreover have "analyze_file example_read example_parse example_tokenize ''broken.py'' None []
     = (Inr None, [''File has syntax error: broken.py''])"
    using analyze_file_absent_or_complete
      [of example_read "''broken.py''" SyntaxError example_parse example_tokenize None "[]"
          "''x = (1,''"]
    by (simp add: example_read_def example_parse_def isinstance_SyntaxError_def)
  moreover have "analyze_file example_read example_parse (\<lambda>s. Inl TokenError) ''ok.py'' None []
     = (Inr None, [''File has syntax error: ok.py''])"
    using stmts analyze_file_absent_or_complete
      [of example_read "''ok.py''" TokenError example_parse "\<lambda>s. Inl TokenError" None "[]"
          "''pass''" 1]
    by (simp add: example_read_def)
  moreover have "analyze_file example_read example_parse example_tokenize ''ok.py'' None []
     = (Inr (Some (1, 1, 1, 0)), [])"
    using stmts lines analyze_file_absent_or_complete
      [of example_read "''ok.py''" _ example_parse example_tokenize None "[]"
          "''pass''" 1 1 1 0]
    by (simp add: example_read_def)
  moreover have "analyze_file (\<lambda>p. Inl UnicodeDecodeError) example_parse example_tokenize
        ''latin1.py'' None []
     = (Inl UnicodeDecodeError, [])"
    using analyze_file_absent_or_complete
      [of "\<lambda>p. Inl UnicodeDecodeError" "''latin1.py''" UnicodeDecodeError example_parse
          example_tokenize None "[]"]
    by (simp add: isinstance_OSError_def isinstance_SyntaxError_def)
  ultimately show ?thesis
    by blast
qed

text \<open>
  Claim C7 as it is written fails for a file that cannot be read because it is not UTF-8:
  reading raises a decoding error, which is no \<open>OSError\<close>, and \<open>analyze_file\<close> lets it out
  instead of returning \<open>None\<close>; no message is logged.
\<close>

theorem undecodable_file_raises:
  "\<not> isinstance_OSError UnicodeDecodeError
   \<and> analyze_file (\<lambda>p. Inl UnicodeDecodeError) example_parse example_tokenize ''latin1.py''
        None []
      \<noteq> (Inr None, [''Failed to open: latin1.py''])
   \<and> analyze_file (\<lambda>p. Inl UnicodeDecodeError) example_parse example_tokenize ''latin1.py''
        None []
      = (Inl UnicodeDecodeError, [])"
  by (simp add: analyze_file_def isinstance_OSError_def isinstance_SyntaxError_def)

text \<open>
  Claim C8, as the code has it. A statement of a class the traversal does not list (an
  annotated assignment, a type alias, a \<open>try\<close> with \<open>except*\<close>, a \<open>match\<close>) passes the
  assertion of the final \<open>else\<close>: it is counted as one statement, nothing below it is
  visited and nothing is raised. The assertion fails for a node that is no statement, and an
  assertion failure raised while counting is not caught by \<open>analyze_file\<close>: it leaves the
  function, and nothing is logged.
\<close>

theorem unrecognized_node_traversal:
  "(isinstance_stmt n \<and> \<not> recognized n \<longrightarrow>
      tranverse_ast_stmt (node_effective_count pats) n c = Inr (c + 1))
   \<and> (\<not> isinstance_stmt n \<and> \<not> recognized n \<longrightarrow>
      tranverse_ast_stmt (node_effective_count pats) n c = Inl AssertionError)
   \<and> (read_file path = Inr src
        \<and> count_statements parse src exclude_name_patterns = Inl AssertionError \<longrightarrow>
      analyze_file read_file parse tokenize path exclude_name_patterns log
        = (Inl AssertionError, log))"
proof -
  have "isinstance_stmt n \<and> \<not> recognized n \<longrightarrow>
      tranverse_ast_stmt (node_effective_count pats) n c = Inr (c + 1)"
    by (cases n) (simp_all add: tranverse_unrecognized effective_count_snd)
  moreover have "\<not> isinstance_stmt n \<and> \<not> recognized n \<longrightarrow>
      tranverse_ast_stmt (node_effective_count pats) n c = Inl AssertionError"
    by (cases n) (simp_all add: tranverse_unrecognized effective_count_fst)
  moreover have "read_file path = Inr src
        \<and> count_statements parse src exclude_name_patterns = Inl AssertionError \<longrightarrow>
      analyze_file read_file parse tokenize path exclude_name_patterns log
        = (Inl AssertionError, log)"
    by (simp add: analyze_file_def isinstance_OSError_def isinstance_SyntaxError_def)
  ultimately show ?thesis
    by blast
qed

theorem unrecognized_node_traversal_witness:
  "isinstance_stmt (Match 1 [[Pass 2]]) \<and> \<not> recognized (Match 1 [[Pass 2]])
   \<and> tranverse_ast_stmt (node_effective_count []) (Match 1 [[Pass 2]]) 0 = Inr 1
   \<and> \<not> isinstance_stmt NonStmt \<and> \<not> recognized NonStmt
   \<and> tranverse_ast_stmt (node_effective_count []) NonStmt 0 = Inl AssertionError
   \<and> analyze_file (\<lambda>p. Inr ''pass'') (\<lambda>s. Inr (Module [NonStmt])) example_tokenize
        ''ok.py'' None [] = (Inl AssertionError, [])"
proof -
  have "count_statements (\<lambda>s. Inr (Module [NonStmt])) ''pass'' None = Inl AssertionError"
    by (simp add: count_statements_def tranverse_ast_stmt.simps node_effective_count_def)
  then show ?thesis
    using unrecognized_node_traversal [of "Match 1 [[Pass 2]]" "[]" 0]
      unrecognized_node_traversal
        [of NonStmt "[]" 0 "\<lambda>p. Inr ''pass''" "''ok.py''" "''pass''"
            "\<lambda>s. Inr (Module [NonStmt])" None example_tokenize "[]"]
    by simp
qed

text \<open>
  Claim C8 as it is written fails: the annotated assignment \<open>x: int = 1\<close> and a \<open>match\<close>
  statement are statements the traversal does not list, and traversing them raises
  nothing; the module \<open>x: int = 1\<close> counts one statement.
\<close>

theorem unrecognized_statement_raises_nothing:
  "isinstance_stmt (AnnAssign 1) \<and> \<not> recognized (AnnAssign 1)
   \<and> tranverse_ast_stmt (node_effective_count []) (AnnAssign 1) 0 \<noteq> Inl AssertionError
   \<and> tranverse_ast_stmt (node_effective_count []) (AnnAssign 1) 0 = Inr 1
   \<and> tranverse_ast_stmt (node_effective_count []) (Match 1 [[Pass 2]]) 0 = Inr 1
   \<and> count_statements (\<lambda>s. Inr (Module [AnnAssign 1])) ''x: int = 1'' None = Inr 1"
  by (simp add: count_statements_def tranverse_ast_stmt.simps node_effective_count_def)




text \<open>
  Claim C10. For the empty text the parser answers a module with no statement and the
  tokenizer the end marker alone; then \<open>count_lines\<close> returns (0, 0, 0),
  \<open>count_statements\<close> returns 0, and \<open>analyze_file\<close> on a readable empty file returns the
  tuple (0, 0, 0, 0) and logs nothing.
\<close>

theorem empty_source_counts:
  assumes "read_file path = Inr []"
    and "parse [] = Inr (Module [])"
    and "tokenize [] = Inr empty_source_tokens"
  shows "count_lines tokenize [] = Inr (0, 0, 0)
         \<and> count_statements parse [] exclude_name_patterns = Inr 0
         \<and> analyze_file read_file parse tokenize path exclude_name_patterns log
             = (Inr (Some (0, 0, 0, 0)), log)"
proof -
  have lines: "count_lines tokenize [] = Inr (0, 0, 0)"
    using assms(3)
    by (simp add: count_lines_def readlines_def empty_source_tokens_def empty_sets_def)
  have stmts: "count_statements parse [] exclude_name_patterns = Inr 0"
    using assms(2)
    by (simp add: count_statements_def tranverse_ast_stmt.simps node_effective_count_def)
  show ?thesis
    using assms(1) lines stmts by (simp add: analyze_file_def)
qed

theorem empty_source_counts_witness:
  "analyze_file (\<lambda>p. Inr []) (\<lambda>s. Inr (Module [])) (\<lambda>s. Inr empty_source_tokens)
     ''empty.py'' None [] = (Inr (Some (0, 0, 0, 0)), [])"
  using empty_source_counts
    [of "\<lambda>p. Inr []" "''empty.py''" "\<lambda>s. Inr (Module [])" "\<lambda>s. Inr empty_source_tokens"
        None "[]"]
  by simp

end
